theory Spec2Isabelle
  imports Complex_Main "HOL-Library.Sublist"
begin

section \<open>Python values, exceptions and string primitives used by app.py\<close>

text \<open>
  A Python \<open>str\<close> is modelled as a \<open>string\<close> (a list of characters). The string
  primitives below are polymorphic in the character type; the separators and markers
  the program searches for are ASCII literals.
\<close>

text \<open>
  Exceptions that derive from Python's \<open>Exception\<close> class. \<open>ProviderError\<close> stands for
  whatever the transcript library raises (captions disabled, video unavailable, network
  failure, invalid identifier, ...), with its message. The completion client raises
  \<open>GroqError\<close> when it is built without an API key, \<open>APIStatusError\<close> with the HTTP
  status of an error response, \<open>APIConnectionError\<close> and \<open>APITimeoutError\<close>. Streamlit
  raises \<open>MediaFileStorageError\<close> for a media file it cannot open.
\<close>

datatype exn =
    IndexError
  | ValueError
  | KeyError string
  | TypeError
  | ProviderError string
  | GroqError
  | APIStatusError nat
  | APIConnectionError
  | APITimeoutError
  | MediaFileStorageError string

text \<open>
  What a Python call can raise: an \<open>Exception\<close> (caught by \<open>except Exception\<close>), or a
  \<open>BaseException\<close> outside that class such as \<open>KeyboardInterrupt\<close> or \<open>SystemExit\<close>
  (not caught by \<open>except Exception\<close>).
\<close>

datatype raised = Exc exn | BaseExc string

text \<open>Sequencing of calls that may raise: the first exception ends the computation.\<close>

definition bind_raised :: "raised + 'a \<Rightarrow> ('a \<Rightarrow> raised + 'b) \<Rightarrow> raised + 'b" where
  "bind_raised m f = (case m of Inl e \<Rightarrow> Inl e | Inr x \<Rightarrow> f x)"

text \<open>Python's \<open>sub in s\<close> on strings: \<open>sub\<close> occurs in \<open>s\<close> as a contiguous substring.\<close>

fun str_in :: "'a list \<Rightarrow> 'a list \<Rightarrow> bool" where
  "str_in sub [] = (sub = [])"
| "str_in sub (c # cs) = (prefix sub (c # cs) \<or> str_in sub cs)"

text \<open>
  Python's \<open>s.split(sep)\<close>: the string is scanned from the left, every occurrence of
  \<open>sep\<close> found ends the current piece and the scan resumes after it (occurrences do not
  overlap). \<open>cur\<close> is the piece collected so far. An empty separator raises \<open>ValueError\<close>.
\<close>

fun split_from :: "'a list \<Rightarrow> 'a list \<Rightarrow> 'a list \<Rightarrow> 'a list list" where
  "split_from sep cur [] = [cur]"
| "split_from sep cur (c # cs) =
     (if sep \<noteq> [] \<and> prefix sep (c # cs)
      then cur # split_from sep [] (drop (length sep - 1) cs)
      else split_from sep (cur @ [c]) cs)"

definition str_split :: "'a list \<Rightarrow> 'a list \<Rightarrow> raised + 'a list list" where
  "str_split s sep = (if sep = [] then Inl (Exc ValueError) else Inr (split_from sep [] s))"

text \<open>Python's \<open>xs[i]\<close> on a list: negative indices count from the end, out of range raises.\<close>

definition py_index :: "'a list \<Rightarrow> int \<Rightarrow> raised + 'a" where
  "py_index xs i =
     (if 0 \<le> i \<and> i < int (length xs) then Inr (xs ! nat i)
      else if i < 0 \<and> - int (length xs) \<le> i then Inr (xs ! nat (int (length xs) + i))
      else Inl (Exc IndexError))"

section \<open>URL parser\<close>

text \<open>
  \<^verbatim>\<open>
  def extract_video_id(url):
      if "v=" in url:
          return url.split("v=")[1].split("&")[0]
      elif "youtu.be" in url:
          return url.split("/")[-1].split("?")[0]
      return None
  \<close>
  The result is \<open>Some\<close> of the identifier or \<open>None\<close>; indexing and splitting may raise.
\<close>

definition extract_video_id :: "string \<Rightarrow> raised + string option" where
  "extract_video_id url =
     (if str_in ''v='' url then
        bind_raised (str_split url ''v='') (\<lambda>parts.
        bind_raised (py_index parts 1) (\<lambda>seg.
        bind_raised (str_split seg ''&'') (\<lambda>pieces.
        bind_raised (py_index pieces 0) (\<lambda>r. Inr (Some r)))))
      else if str_in ''youtu.be'' url then
        bind_raised (str_split url ''/'') (\<lambda>parts.
        bind_raised (py_index parts (- 1)) (\<lambda>seg.
        bind_raised (str_split seg ''?'') (\<lambda>pieces.
        bind_raised (py_index pieces 0) (\<lambda>r. Inr (Some r)))))
      else Inr None)"

section \<open>Transcript fetcher\<close>

text \<open>
  A caption fragment is a Python dict; the program reads its \<open>'text'\<close> entry only.
  \<open>PyOther\<close> is any value that is not a \<open>str\<close> (a number, \<open>None\<close>, ...).
\<close>

datatype pyval = PyStr string | PyOther

type_synonym fragment = "string \<rightharpoonup> pyval"

text \<open>Python's \<open>d[k]\<close> on a dict: a missing key raises \<open>KeyError\<close>.\<close>

definition dict_get :: "(string \<rightharpoonup> 'v) \<Rightarrow> string \<Rightarrow> raised + 'v" where
  "dict_get d k = (case d k of None \<Rightarrow> Inl (Exc (KeyError k)) | Some v \<Rightarrow> Inr v)"

text \<open>A list comprehension \<open>[f(item) for item in xs]\<close>: the first exception ends it.\<close>

fun comprehension :: "('a \<Rightarrow> raised + 'b) \<Rightarrow> 'a list \<Rightarrow> raised + 'b list" where
  "comprehension f [] = Inr []"
| "comprehension f (x # xs) =
     bind_raised (f x) (\<lambda>y. bind_raised (comprehension f xs) (\<lambda>ys. Inr (y # ys)))"

text \<open>
  Python's \<open>sep.join(items)\<close>: every item must be a \<open>str\<close> (\<open>TypeError\<close> otherwise);
  the result starts with the first item and appends the separator and the next item for
  each item that follows; the join of no items is the empty string.
\<close>

fun as_str :: "pyval \<Rightarrow> raised + string" where
  "as_str (PyStr s) = Inr s"
| "as_str PyOther = Inl (Exc TypeError)"

fun join_strs :: "string \<Rightarrow> string list \<Rightarrow> string" where
  "join_strs sep [] = []"
| "join_strs sep (x # xs) = foldl (\<lambda>acc y. acc @ sep @ y) x xs"

definition str_join :: "string \<Rightarrow> pyval list \<Rightarrow> raised + string" where
  "str_join sep items = bind_raised (comprehension as_str items) (\<lambda>ss. Inr (join_strs sep ss))"

section \<open>Interaction with the outside: events and services\<close>

text \<open>
  The completion client that \<open>ChatGroq(temperature, groq_api_key, model_name)\<close> builds:
  the temperature, key and model it puts into every request, and the number of times it
  sends a failed request again. The temperature is a decimal number.
\<close>

record llm_config =
  temperature :: rat
  groq_api_key :: string
  model_name :: string
  max_retries :: nat

text \<open>
  Everything the script does to the outside, in order: the Streamlit calls that render
  a widget, the call of the transcript provider and every request that the completion
  client sends to the completion service.
\<close>

datatype event =
    SetPageConfig string string
  | SidebarHeader string
  | SidebarTextInput string
  | Title string
  | Markdown string
  | TextInput string
  | Video string
  | Spinner string
  | Tabs "string list"
  | Button string
  | Info string
  | Write string
  | TextArea string string nat
  | ErrorBox string
  | WarningBox string
  | GetTranscriptCall string
  | LLMRequest llm_config string

text \<open>
  The two external services are parameters of the model. Each answers a request with a
  result or an exception; its answer may depend on everything that happened before the
  request (the events so far). The completion service answers one request of the client
  with the text of the completion, or fails with the exception the client makes of the
  failure.
\<close>

type_synonym transcript_api = "event list \<Rightarrow> string \<Rightarrow> raised + fragment list"

type_synonym llm_service = "event list \<Rightarrow> llm_config \<Rightarrow> string \<Rightarrow> raised + string"

text \<open>
  \<open>st.video(url)\<close> is a parameter too. Streamlit plays a web address; any other string it
  reads as the path of a media file, and it raises when it cannot open that file.
\<close>

type_synonym video_widget = "string \<Rightarrow> raised + unit"

text \<open>
  \<^verbatim>\<open>
  def get_transcript(video_id):
      try:
          transcript_list = YouTubeTranscriptApi.get_transcript(video_id)
          full_text = " ".join([item['text'] for item in transcript_list])
          return full_text
      except Exception as e:
          return None
  \<close>
\<close>

definition except_Exception :: "raised + 'a \<Rightarrow> 'a \<Rightarrow> raised + 'a" where
  "except_Exception body handler =
     (case body of Inl (Exc e) \<Rightarrow> Inr handler | Inl (BaseExc b) \<Rightarrow> Inl (BaseExc b) | Inr x \<Rightarrow> Inr x)"

definition get_transcript ::
  "transcript_api \<Rightarrow> string \<Rightarrow> event list \<Rightarrow> (raised + string option) \<times> event list" where
  "get_transcript api video_id tr =
     (except_Exception
        (bind_raised (api tr video_id) (\<lambda>transcript_list.
         bind_raised (comprehension (\<lambda>item. dict_get item ''text'') transcript_list) (\<lambda>texts.
         bind_raised (str_join '' '' texts) (\<lambda>full_text. Inr (Some full_text)))))
        None,
      tr @ [GetTranscriptCall video_id])"

section \<open>Prompt composer\<close>

text \<open>
  \<open>ChatPromptTemplate.from_template\<close> reads a template in Python's format-string
  syntax: literal text and fields \<open>{name}\<close>. (The templates of app.py contain no doubled
  braces, which the model does not cover.) A brace that is not closed, or a closing brace
  outside a field, raises \<open>ValueError\<close>. The flag says whether the scan is inside a field.
\<close>

datatype piece = Lit string | Var string

fun scan_template :: "bool \<Rightarrow> string \<Rightarrow> string \<Rightarrow> raised + piece list" where
  "scan_template False acc [] = Inr [Lit acc]"
| "scan_template True acc [] = Inl (Exc ValueError)"
| "scan_template False acc (c # cs) =
     (if c = CHR ''{'' then bind_raised (scan_template True [] cs) (\<lambda>ps. Inr (Lit acc # ps))
      else if c = CHR ''}'' then Inl (Exc ValueError)
      else scan_template False (acc @ [c]) cs)"
| "scan_template True acc (c # cs) =
     (if c = CHR ''}'' then bind_raised (scan_template False [] cs) (\<lambda>ps. Inr (Var acc # ps))
      else scan_template True (acc @ [c]) cs)"

definition from_template :: "string \<Rightarrow> raised + piece list" where
  "from_template template = scan_template False [] template"

text \<open>Filling the template from the dict given to \<open>invoke\<close>: a missing variable raises \<open>KeyError\<close>.\<close>

fun format_prompt :: "piece list \<Rightarrow> (string \<rightharpoonup> string) \<Rightarrow> raised + string" where
  "format_prompt [] d = Inr []"
| "format_prompt (Lit s # ps) d = bind_raised (format_prompt ps d) (\<lambda>r. Inr (s @ r))"
| "format_prompt (Var k # ps) d =
     bind_raised (dict_get d k) (\<lambda>v. bind_raised (format_prompt ps d) (\<lambda>r. Inr (v @ r)))"

text \<open>
  \<open>ChatGroq(temperature=t, groq_api_key=k, model_name=m)\<close>, as the client library
  behaves with the settings app.py leaves at their defaults and no key in the process
  environment: without a key it raises \<open>GroqError\<close>; a temperature of 0 is replaced by
  1e-08; \<open>max_retries\<close> is 2.
\<close>

definition default_max_retries :: nat where
  "default_max_retries = 2"

definition ChatGroq :: "rat \<Rightarrow> string \<Rightarrow> string \<Rightarrow> raised + llm_config" where
  "ChatGroq t k m =
     (if k = [] then Inl (Exc GroqError)
      else Inr \<lparr>temperature = (if t = 0 then 1 / 100000000 else t), groq_api_key = k,
                model_name = m, max_retries = default_max_retries\<rparr>)"

text \<open>
  The failures after which the client sends the request again: a connection failure, a
  timeout, and the responses with status 408, 409, 429 or 500 and above. (A response
  can override this with a header, which the model does not cover.)
\<close>

fun should_retry :: "exn \<Rightarrow> bool" where
  "should_retry (APIStatusError status) =
     (status = 408 \<or> status = 409 \<or> status = 429 \<or> 500 \<le> status)"
| "should_retry APIConnectionError = True"
| "should_retry APITimeoutError = True"
| "should_retry _ = False"

text \<open>
  One call of the client: it sends the request, and sends it again after a failure of
  the kind above while retries are left; the last failure is raised. Every request is
  recorded. (The client waits between two requests; time is not part of the model.)
\<close>

fun send_request ::
  "llm_service \<Rightarrow> llm_config \<Rightarrow> string \<Rightarrow> nat \<Rightarrow> event list \<Rightarrow> (raised + string) \<times> event list" where
  "send_request llm cfg p 0 tr = (llm tr cfg p, tr @ [LLMRequest cfg p])"
| "send_request llm cfg p (Suc retries_left) tr =
     (case llm tr cfg p of
        Inl (Exc e) \<Rightarrow>
          if should_retry e then send_request llm cfg p retries_left (tr @ [LLMRequest cfg p])
          else (Inl (Exc e), tr @ [LLMRequest cfg p])
      | Inl (BaseExc b) \<Rightarrow> (Inl (BaseExc b), tr @ [LLMRequest cfg p])
      | Inr answer \<Rightarrow> (Inr answer, tr @ [LLMRequest cfg p]))"

text \<open>
  \<open>chain = prompt | llm; chain.invoke(d).content\<close>: the prompt is filled from \<open>d\<close> and
  the client is called with it.
\<close>

definition chain_invoke ::
  "llm_service \<Rightarrow> raised + piece list \<Rightarrow> llm_config \<Rightarrow> (string \<rightharpoonup> string) \<Rightarrow> event list
     \<Rightarrow> (raised + string) \<times> event list" where
  "chain_invoke llm prompt cfg d tr =
     (case bind_raised prompt (\<lambda>ps. format_prompt ps d) of
        Inl e \<Rightarrow> (Inl e, tr)
      | Inr p \<Rightarrow> send_request llm cfg p (max_retries cfg) tr)"

definition newline :: string where
  "newline = [CHR 0x0A]"

definition summary_template :: string where
  "summary_template =
     newline @
     ''        You are an expert video summarizer.'' @ newline @
     ''        Read the following transcript from a YouTube video and provide a concise, structured summary.'' @ newline @
     ''        Capture the main points, key takeaways, and any actionable advice.'' @ newline @
     ''        '' @ newline @
     ''        Transcript: {text}'' @ newline @
     ''        ''"

definition question_template :: string where
  \<open>question_template =
     newline @
     ''        Answer the user's question based ONLY on the following video transcript.'' @ newline @
     ''        If the answer is not in the transcript, say "I couldn't find that in the video."'' @ newline @
     ''        '' @ newline @
     ''        Transcript: {text}'' @ newline @
     ''        '' @ newline @
     ''        Question: {question}'' @ newline @
     ''        ''\<close>

definition generate_summary ::
  "llm_service \<Rightarrow> string \<Rightarrow> string \<Rightarrow> event list \<Rightarrow> (raised + string) \<times> event list" where
  "generate_summary llm text api_key tr =
     (case ChatGroq 0 api_key ''llama3-8b-8192'' of
        Inl e \<Rightarrow> (Inl e, tr)
      | Inr cfg \<Rightarrow>
          (let prompt = from_template summary_template
           in chain_invoke llm prompt cfg [''text'' \<mapsto> text] tr))"

definition ask_question ::
  "llm_service \<Rightarrow> string \<Rightarrow> string \<Rightarrow> string \<Rightarrow> event list \<Rightarrow> (raised + string) \<times> event list" where
  "ask_question llm text question api_key tr =
     (case ChatGroq 0 api_key ''llama3-8b-8192'' of
        Inl e \<Rightarrow> (Inl e, tr)
      | Inr cfg \<Rightarrow>
          (let prompt = from_template question_template
           in chain_invoke llm prompt cfg
                [''text'' \<mapsto> text, ''question'' \<mapsto> question] tr))"

section \<open>Interactive shell\<close>

text \<open>
  One run of the script: Streamlit runs it from top to bottom with the current values of
  the input widgets, which are the run's inputs.
\<close>

record ui_input =
  api_key_input :: string
  video_url_input :: string
  summary_button :: bool
  question_input :: string

text \<open>
  Python's truth test \<open>if x:\<close> on a value that is \<open>None\<close> or a \<open>str\<close>: false for \<open>None\<close>
  and for the empty string.
\<close>

fun truthy :: "string option \<Rightarrow> bool" where
  "truthy None = False"
| "truthy (Some s) = (s \<noteq> [])"

text \<open>
  The labels that start with a pictograph are given in UTF-8, the pictograph's bytes
  first. \<open>prelude\<close> is what every run renders before it looks at its inputs.
\<close>

definition prelude :: "event list" where
  "prelude =
     [SetPageConfig ''YouTube AI Summarizer'' ''wide'',
      SidebarHeader ([CHR 0xE2, CHR 0x9A, CHR 0x99, CHR 0xEF, CHR 0xB8, CHR 0x8F] @ '' Configuration''),
      SidebarTextInput ''groq_api_key'',
      Title ([CHR 0xF0, CHR 0x9F, CHR 0x93, CHR 0xBA] @ '' YouTube Video AI Agent''),
      Markdown ''Summarize videos, read subtitles, and chat with content instantly.'',
      TextInput ''Paste YouTube Video Link here:'']"

definition tab_labels :: "string list" where
  "tab_labels =
     [[CHR 0xF0, CHR 0x9F, CHR 0x93, CHR 0x9D] @ '' Summary'',
      [CHR 0xF0, CHR 0x9F, CHR 0x92, CHR 0xAC] @ '' Chat with Video'',
      [CHR 0xF0, CHR 0x9F, CHR 0x93, CHR 0x9C] @ '' Full Transcript'']"

definition no_transcript_message :: string where
  "no_transcript_message =
     ''Could not retrieve transcript. Note: This tool only works on videos that have Closed Captions/Subtitles enabled.''"

definition invalid_url_message :: string where
  "invalid_url_message = ''Invalid YouTube URL.''"

definition missing_key_message :: string where
  "missing_key_message =
     [CHR 0xE2, CHR 0x9A, CHR 0xA0, CHR 0xEF, CHR 0xB8, CHR 0x8F] @
     '' Please enter your Groq API Key in the sidebar to proceed.''"

text \<open>
  \<^verbatim>\<open>
  with tab1:
      if st.button("Generate Summary"):
          with st.spinner("Analyzing video content..."):
              summary = generate_summary(transcript_text, api_key)
              st.markdown(summary)
  \<close>
\<close>

definition summary_tab ::
  "llm_service \<Rightarrow> string \<Rightarrow> ui_input \<Rightarrow> event list \<Rightarrow> (raised + unit) \<times> event list" where
  "summary_tab llm transcript_text inp tr =
     (let tr1 = tr @ [Button ''Generate Summary''] in
      if summary_button inp then
        (case generate_summary llm transcript_text (api_key_input inp)
                (tr1 @ [Spinner ''Analyzing video content...'']) of
           (Inl e, tr2) \<Rightarrow> (Inl e, tr2)
         | (Inr summary, tr2) \<Rightarrow> (Inr (), tr2 @ [Markdown summary]))
      else (Inr (), tr1))"

text \<open>
  \<^verbatim>\<open>
  with tab2:
      st.info("Ask any question about the video content!")
      user_question = st.text_input("Ask a question:")
      if user_question:
          with st.spinner("Thinking..."):
              answer = ask_question(transcript_text, user_question, api_key)
              st.write(answer)
  \<close>
\<close>

definition chat_tab ::
  "llm_service \<Rightarrow> string \<Rightarrow> ui_input \<Rightarrow> event list \<Rightarrow> (raised + unit) \<times> event list" where
  "chat_tab llm transcript_text inp tr =
     (let tr1 = tr @ [Info ''Ask any question about the video content!'', TextInput ''Ask a question:''];
          user_question = question_input inp in
      if user_question \<noteq> [] then
        (case ask_question llm transcript_text user_question (api_key_input inp)
                (tr1 @ [Spinner ''Thinking...'']) of
           (Inl e, tr2) \<Rightarrow> (Inl e, tr2)
         | (Inr answer, tr2) \<Rightarrow> (Inr (), tr2 @ [Write answer]))
      else (Inr (), tr1))"

text \<open>The three tabs, rendered once a transcript is there.\<close>

definition ready_view ::
  "llm_service \<Rightarrow> string \<Rightarrow> ui_input \<Rightarrow> event list \<Rightarrow> (raised + unit) \<times> event list" where
  "ready_view llm transcript_text inp tr =
     (case summary_tab llm transcript_text inp (tr @ [Tabs tab_labels]) of
        (Inl e, tr1) \<Rightarrow> (Inl e, tr1)
      | (Inr _, tr1) \<Rightarrow>
          (case chat_tab llm transcript_text inp tr1 of
             (Inl e, tr2) \<Rightarrow> (Inl e, tr2)
           | (Inr _, tr2) \<Rightarrow> (Inr (), tr2 @ [TextArea ''Subtitles'' transcript_text 300])))"

text \<open>
  \<^verbatim>\<open>
  if video_url and api_key:
      video_id = extract_video_id(video_url)
      if video_id:
          st.video(video_url)
          with st.spinner("Fetching transcript..."):
              transcript_text = get_transcript(video_id)
          if transcript_text:
              ... the three tabs ...
          else:
              st.error("Could not retrieve transcript. ...")
      else:
          st.error("Invalid YouTube URL.")
  elif not api_key:
      st.warning("... Please enter your Groq API Key in the sidebar to proceed.")
  \<close>
  The result is the run's outcome (\<open>Inl\<close>: an exception ended it) and its events. An
  exception of \<open>st.video\<close> ends the run before the player is rendered and before the
  transcript is fetched.
\<close>

definition app ::
  "video_widget \<Rightarrow> transcript_api \<Rightarrow> llm_service \<Rightarrow> ui_input \<Rightarrow> (raised + unit) \<times> event list" where
  "app st_video api llm inp =
     (let api_key = api_key_input inp; video_url = video_url_input inp in
      if video_url \<noteq> [] \<and> api_key \<noteq> [] then
        (case extract_video_id video_url of
           Inl e \<Rightarrow> (Inl e, prelude)
         | Inr video_id \<Rightarrow>
             if truthy video_id then
               (case st_video video_url of
                  Inl e \<Rightarrow> (Inl e, prelude)
                | Inr _ \<Rightarrow>
                    (case get_transcript api (the video_id)
                            (prelude @ [Video video_url, Spinner ''Fetching transcript...'']) of
                       (Inl e, tr) \<Rightarrow> (Inl e, tr)
                     | (Inr transcript_text, tr) \<Rightarrow>
                         if truthy transcript_text
                         then ready_view llm (the transcript_text) inp tr
                         else (Inr (), tr @ [ErrorBox no_transcript_message])))
             else (Inr (), prelude @ [ErrorBox invalid_url_message]))
      else if api_key = [] then (Inr (), prelude @ [WarningBox missing_key_message])
      else (Inr (), prelude))"

section \<open>Notions used to state the properties\<close>

text \<open>The text before the first occurrence of \<open>sep\<close> (all of the string if there is none).\<close>

fun before_first :: "'a list \<Rightarrow> 'a list \<Rightarrow> 'a list" where
  "before_first sep [] = []"
| "before_first sep (c # cs) = (if prefix sep (c # cs) then [] else c # before_first sep cs)"

text \<open>The text after the first occurrence of \<open>sep\<close> (empty if there is none).\<close>

fun after_first :: "'a list \<Rightarrow> 'a list \<Rightarrow> 'a list" where
  "after_first sep [] = []"
| "after_first sep (c # cs) =
     (if prefix sep (c # cs) then drop (length sep) (c # cs) else after_first sep cs)"

text \<open>The text up to the next occurrence of the character \<open>d\<close>, or to the end of the string.\<close>

definition up_to_char :: "'a \<Rightarrow> 'a list \<Rightarrow> 'a list" where
  "up_to_char d s = takeWhile (\<lambda>c. c \<noteq> d) s"

text \<open>
  The specification's reading of the \<open>v=\<close> rule: the text between the first \<open>v=\<close> and the
  next \<open>&\<close>, or the end of the string.
\<close>

definition text_between_marker_and_amp :: "string \<Rightarrow> string" where
  "text_between_marker_and_amp url = up_to_char CHR ''&'' (after_first ''v='' url)"

text \<open>The last piece of the string when it is cut at every \<open>d\<close>: the text after the last \<open>d\<close>.\<close>

definition last_segment :: "'a \<Rightarrow> 'a list \<Rightarrow> 'a list" where
  "last_segment d s = rev (takeWhile (\<lambda>c. c \<noteq> d) (rev s))"

text \<open>The strings in their order, one space between neighbours.\<close>

fun spaced :: "string list \<Rightarrow> string" where
  "spaced [] = []"
| "spaced [x] = x"
| "spaced (x # y # ys) = x @ '' '' @ spaced (y # ys)"

text \<open>The \<open>text\<close> field of a caption fragment that has one.\<close>

definition has_text :: "fragment \<Rightarrow> bool" where
  "has_text item = (case item ''text'' of Some (PyStr s) \<Rightarrow> True | _ \<Rightarrow> False)"

definition text_of :: "fragment \<Rightarrow> string" where
  "text_of item = (case item ''text'' of Some (PyStr s) \<Rightarrow> s | _ \<Rightarrow> [])"

definition fallback_phrase :: string where
  "fallback_phrase = ''I couldn't find that in the video.''"

text \<open>The client that both prompt operations work with, for the key \<open>k\<close>.\<close>

definition fixed_config :: "string \<Rightarrow> llm_config" where
  "fixed_config k =
     \<lparr>temperature = 1 / 100000000, groq_api_key = k, model_name = ''llama3-8b-8192'',
      max_retries = 2\<rparr>"

text \<open>The events of a run that reach an external service.\<close>

fun is_service_call :: "event \<Rightarrow> bool" where
  "is_service_call (GetTranscriptCall v) = True"
| "is_service_call (LLMRequest c p) = True"
| "is_service_call _ = False"


text \<open>An answer of the completion service after which the client sends the request again.\<close>

fun retried :: "raised + string \<Rightarrow> bool" where
  "retried (Inl (Exc e)) = should_retry e"
| "retried _ = False"

text \<open>The prompts the two operations send, written out.\<close>

definition summary_prompt :: "string \<Rightarrow> string" where
  "summary_prompt text =
     newline @
     ''        You are an expert video summarizer.'' @ newline @
     ''        Read the following transcript from a YouTube video and provide a concise, structured summary.'' @ newline @
     ''        Capture the main points, key takeaways, and any actionable advice.'' @ newline @
     ''        '' @ newline @
     ''        Transcript: '' @ text @ newline @
     ''        ''"

definition question_prompt :: "string \<Rightarrow> string \<Rightarrow> string" where
  \<open>question_prompt text question =
     newline @
     ''        Answer the user's question based ONLY on the following video transcript.'' @ newline @
     ''        If the answer is not in the transcript, say "I couldn't find that in the video."'' @ newline @
     ''        '' @ newline @
     ''        Transcript: '' @ text @ newline @
     ''        '' @ newline @
     ''        Question: '' @ question @ newline @
     ''        ''\<close>

text \<open>What a run wrote with \<open>st.write\<close>: the answers of the question tab.\<close>

fun rendered_answers :: "event list \<Rightarrow> string list" where
  "rendered_answers [] = []"
| "rendered_answers (Write s # es) = s # rendered_answers es"
| "rendered_answers (e # es) = rendered_answers es"

text \<open>
  Stand-ins for the external services: a provider that returns given fragments, one
  that raises, a completion service that returns a given text, one that raises, one that
  answers the first request with status 429 (too many requests) and every later one with
  a given text, and a video widget that plays the addresses starting with \<open>http://\<close> or
  \<open>https://\<close> and raises for every other string.
\<close>

definition canned_api :: "fragment list \<Rightarrow> transcript_api" where
  "canned_api frags = (\<lambda>tr video_id. Inr frags)"

definition failing_api :: "raised \<Rightarrow> transcript_api" where
  "failing_api e = (\<lambda>tr video_id. Inl e)"

definition canned_llm :: "string \<Rightarrow> llm_service" where
  "canned_llm answer = (\<lambda>tr cfg p. Inr answer)"



definition web_video :: video_widget where
  "web_video url =
     (if prefix ''http://'' url \<or> prefix ''https://'' url then Inr ()
      else Inl (Exc (MediaFileStorageError url)))"

definition text_fragment :: "string \<Rightarrow> fragment" where
  "text_fragment s = [''text'' \<mapsto> PyStr s]"

section \<open>Facts about the string primitives\<close>

lemma str_in_sublist: "str_in sub s = sublist sub s"
  by (induction s) (auto simp: sublist_Cons_right)

lemma split_from_nonempty: "split_from sep cur s \<noteq> []"
  by (induction sep cur s rule: split_from.induct) auto

lemma before_first_no_occurrence: "\<not> str_in sep s \<Longrightarrow> before_first sep s = s"
  by (induction s) auto

lemma split_from_no_occurrence: "\<not> str_in sep s \<Longrightarrow> split_from sep cur s = [cur @ s]"
  by (induction s arbitrary: cur) auto

lemma split_from_occurrence:
  "sep \<noteq> [] \<Longrightarrow> str_in sep s \<Longrightarrow>
   split_from sep cur s = (cur @ before_first sep s) # split_from sep [] (after_first sep s)"
proof (induction s arbitrary: cur)
  case Nil
  then show ?case by simp
next
  case (Cons c cs)
  show ?case
  proof (cases "prefix sep (c # cs)")
    case True
    with Cons.prems show ?thesis by (cases sep) (auto simp: drop_Cons')
  next
    case False
    with Cons show ?thesis by simp
  qed
qed

lemma hd_split_from: "sep \<noteq> [] \<Longrightarrow> hd (split_from sep cur s) = cur @ before_first sep s"
  by (cases "str_in sep s")
     (simp_all add: split_from_occurrence split_from_no_occurrence before_first_no_occurrence)

lemma before_first_single: "before_first [d] s = up_to_char d s"
  by (induction s) (auto simp: up_to_char_def)

lemma last_split_from_single:
  "last (split_from [d] cur s) = (if d \<in> set s then last_segment d s else cur @ s)"
  by (induction s arbitrary: cur)
     (auto simp: last_segment_def split_from_nonempty takeWhile_append)

lemma last_segment_no_occurrence: "d \<notin> set s \<Longrightarrow> last_segment d s = s"
proof -
  assume "d \<notin> set s"
  then have all: "takeWhile (\<lambda>c. c \<noteq> d) (rev s) = rev s"
    by (intro takeWhile_eq_all_conv [THEN iffD2]) auto
  show ?thesis unfolding last_segment_def all by simp
qed

lemma last_segment_append: "d \<notin> set t \<Longrightarrow> last_segment d (p @ d # t) = t"
  by (simp add: last_segment_def takeWhile_append)

lemma py_index_0: "xs \<noteq> [] \<Longrightarrow> py_index xs 0 = Inr (hd xs)"
  by (cases xs) (simp_all add: py_index_def)

lemma py_index_last: "xs \<noteq> [] \<Longrightarrow> py_index xs (- 1) = Inr (last xs)"
  by (cases xs rule: rev_cases) (simp_all add: py_index_def nth_append)

lemma py_index_1_Cons: "ys \<noteq> [] \<Longrightarrow> py_index (x # ys) 1 = Inr (hd ys)"
  by (cases ys) (simp_all add: py_index_def)

lemma first_piece: "bind_raised (str_split s [d]) (\<lambda>pieces. bind_raised (py_index pieces 0) f) = f (up_to_char d s)"
  by (simp add: str_split_def bind_raised_def py_index_0 split_from_nonempty hd_split_from before_first_single)

lemma v_rule_result:
  assumes "str_in ''v='' url"
  shows "extract_video_id url =
         Inr (Some (up_to_char CHR ''&'' (before_first ''v='' (after_first ''v='' url))))"
proof -
  have "split_from ''v='' [] url =
        before_first ''v='' url # split_from ''v='' [] (after_first ''v='' url)"
    using split_from_occurrence [of "''v=''" url "[]"] assms by simp
  then have "py_index (split_from ''v='' [] url) 1 =
        Inr (before_first ''v='' (after_first ''v='' url))"
    using hd_split_from [of "''v=''" "[]" "after_first ''v='' url"]
    by (simp add: py_index_1_Cons split_from_nonempty)
  then show ?thesis
    using assms by (simp add: extract_video_id_def str_split_def bind_raised_def first_piece [unfolded str_split_def bind_raised_def, simplified])
qed

lemma short_rule_result:
  assumes "\<not> str_in ''v='' url" "str_in ''youtu.be'' url"
  shows "extract_video_id url = Inr (Some (up_to_char CHR ''?'' (last_segment CHR ''/'' url)))"
proof -
  have "py_index (split_from ''/'' [] url) (- 1) = Inr (last_segment CHR ''/'' url)"
    by (simp add: py_index_last split_from_nonempty last_split_from_single last_segment_no_occurrence)
  then show ?thesis
    using assms by (simp add: extract_video_id_def str_split_def bind_raised_def first_piece [unfolded str_split_def bind_raised_def, simplified])
qed

lemma two_char_first:
  "a \<noteq> b \<Longrightarrow> \<not> str_in [a, b] pre \<Longrightarrow>
   before_first [a, b] (pre @ a # b # rest) = pre \<and> after_first [a, b] (pre @ a # b # rest) = rest"
proof (induction pre)
  case Nil
  then show ?case by simp
next
  case (Cons c p)
  then have "\<not> prefix [a, b] (c # p @ a # b # rest)" by (cases p) auto
  with Cons show ?case by auto
qed

lemma two_char_before:
  "c \<noteq> b \<Longrightarrow> \<not> str_in [a, b] xs \<Longrightarrow>
   before_first [a, b] (xs @ c # ys) = xs @ before_first [a, b] (c # ys)"
proof (induction xs)
  case Nil
  then show ?case by simp
next
  case (Cons x p)
  then have "\<not> prefix [a, b] (x # p @ c # ys)" by (cases p) auto
  with Cons show ?case by simp
qed

lemma up_to_char_append: "d \<notin> set xs \<Longrightarrow> up_to_char d (xs @ d # ys) = xs"
  by (simp add: up_to_char_def takeWhile_append)

lemma up_to_char_no_occurrence: "d \<notin> set xs \<Longrightarrow> up_to_char d xs = xs"
  by (induction xs) (auto simp: up_to_char_def)

lemma text_between_marker_and_amp_meaning:
  assumes "\<not> str_in ''v='' pre" "CHR ''&'' \<notin> set mid"
  shows "text_between_marker_and_amp (pre @ ''v='' @ mid @ ''&'' @ rest) = mid"
    and "text_between_marker_and_amp (pre @ ''v='' @ mid) = mid"
  using assms two_char_first [of "CHR ''v''" "CHR ''=''" pre]
  by (simp_all add: text_between_marker_and_amp_def up_to_char_append up_to_char_no_occurrence)

section \<open>URL parser: the \<open>v=\<close> rule\<close>

text \<open>
  C1, as the code has it. For every URL that contains \<open>v=\<close>, \<open>extract_video_id\<close> returns
  the text that follows the first \<open>v=\<close>, up to the next \<open>v=\<close> or the next \<open>&\<close>, whichever
  comes first, or to the end of the string. In particular, when the first \<open>v=\<close> is followed
  by \<open>ID&...\<close> and \<open>ID\<close> contains neither \<open>v=\<close> nor \<open>&\<close>, the result is exactly \<open>ID\<close>.
\<close>

theorem extract_video_id_v_marker:
  "str_in ''v='' url \<Longrightarrow>
     extract_video_id url =
       Inr (Some (up_to_char CHR ''&'' (before_first ''v='' (after_first ''v='' url)))) \<and>
     (url = pre @ ''v='' @ ident @ ''&'' @ rest \<longrightarrow> \<not> str_in ''v='' pre \<longrightarrow>
      \<not> str_in ''v='' ident \<longrightarrow> CHR ''&'' \<notin> set ident \<longrightarrow>
        extract_video_id url = Inr (Some ident))"
proof
  assume marker: "str_in ''v='' url"
  then show general: "extract_video_id url =
       Inr (Some (up_to_char CHR ''&'' (before_first ''v='' (after_first ''v='' url))))"
    by (rule v_rule_result)
  show "url = pre @ ''v='' @ ident @ ''&'' @ rest \<longrightarrow> \<not> str_in ''v='' pre \<longrightarrow>
      \<not> str_in ''v='' ident \<longrightarrow> CHR ''&'' \<notin> set ident \<longrightarrow>
        extract_video_id url = Inr (Some ident)"
  proof (intro impI)
    assume shape: "url = pre @ ''v='' @ ident @ ''&'' @ rest"
      and pre: "\<not> str_in ''v='' pre" and ident: "\<not> str_in ''v='' ident"
      and amp: "CHR ''&'' \<notin> set ident"
    have "after_first ''v='' url = ident @ CHR ''&'' # rest"
      using two_char_first [of "CHR ''v''" "CHR ''=''" pre "ident @ CHR ''&'' # rest"] pre shape
      by simp
    moreover have "before_first ''v='' (ident @ CHR ''&'' # rest) =
        ident @ before_first ''v='' (CHR ''&'' # rest)"
      using two_char_before [of "CHR ''&''" "CHR ''=''" "CHR ''v''" ident rest] ident by simp
    ultimately have "up_to_char CHR ''&'' (before_first ''v='' (after_first ''v='' url)) = ident"
      using amp by (simp add: up_to_char_append)
    with general show "extract_video_id url = Inr (Some ident)" by simp
  qed
qed

theorem extract_video_id_v_marker_witness:
  "str_in ''v='' ''https://www.youtube.com/watch?v=abc123&t=5s'' \<and>
   ''https://www.youtube.com/watch?v=abc123&t=5s'' =
     ''https://www.youtube.com/watch?'' @ ''v='' @ ''abc123'' @ ''&'' @ ''t=5s'' \<and>
   \<not> str_in ''v='' ''https://www.youtube.com/watch?'' \<and>
   \<not> str_in ''v='' ''abc123'' \<and> CHR ''&'' \<notin> set ''abc123'' \<and>
   extract_video_id ''https://www.youtube.com/watch?v=abc123&t=5s'' = Inr (Some ''abc123'')"
  using extract_video_id_v_marker [of "''https://www.youtube.com/watch?v=abc123&t=5s''"
      "''https://www.youtube.com/watch?''" "''abc123''" "''t=5s''"]
  by (simp add: up_to_char_def)

text \<open>
  C1 as the specification states it fails when a second \<open>v=\<close> comes before the next \<open>&\<close>:
  the text between the first \<open>v=\<close> and the end of the string is \<open>abcv=def\<close>, and the
  program returns \<open>abc\<close>.
\<close>

theorem extract_video_id_second_marker_counterexample:
  "str_in ''v='' ''https://www.youtube.com/watch?v=abcv=def'' \<and>
   text_between_marker_and_amp ''https://www.youtube.com/watch?v=abcv=def'' = ''abcv=def'' \<and>
   extract_video_id ''https://www.youtube.com/watch?v=abcv=def'' = Inr (Some ''abc'') \<and>
   extract_video_id ''https://www.youtube.com/watch?v=abcv=def'' \<noteq>
     Inr (Some (text_between_marker_and_amp ''https://www.youtube.com/watch?v=abcv=def''))"
  by (simp add: extract_video_id_def text_between_marker_and_amp_def up_to_char_def
      str_split_def bind_raised_def py_index_def)

section \<open>URL parser: the short-link rule\<close>

text \<open>
  C5. For every URL that does not contain \<open>v=\<close> and contains \<open>youtu.be\<close>,
  \<open>extract_video_id\<close> returns the last of the pieces the URL is cut into at every \<open>/\<close>,
  without its part from the first \<open>?\<close> on. In particular, for
  \<open>https://youtu.be/ID?query\<close>, where \<open>ID\<close> has no \<open>/\<close> and no \<open>?\<close> and the query no
  \<open>/\<close>, the result is exactly \<open>ID\<close>.
\<close>

theorem extract_video_id_short_link:
  "\<not> str_in ''v='' url \<Longrightarrow> str_in ''youtu.be'' url \<Longrightarrow>
     extract_video_id url = Inr (Some (up_to_char CHR ''?'' (last_segment CHR ''/'' url))) \<and>
     (url = ''https://youtu.be/'' @ ident @ ''?'' @ query \<longrightarrow> CHR ''/'' \<notin> set ident \<longrightarrow>
      CHR ''?'' \<notin> set ident \<longrightarrow> CHR ''/'' \<notin> set query \<longrightarrow>
        extract_video_id url = Inr (Some ident))"
proof
  assume no_marker: "\<not> str_in ''v='' url" and short: "str_in ''youtu.be'' url"
  then show general:
    "extract_video_id url = Inr (Some (up_to_char CHR ''?'' (last_segment CHR ''/'' url)))"
    by (rule short_rule_result)
  show "url = ''https://youtu.be/'' @ ident @ ''?'' @ query \<longrightarrow> CHR ''/'' \<notin> set ident \<longrightarrow>
      CHR ''?'' \<notin> set ident \<longrightarrow> CHR ''/'' \<notin> set query \<longrightarrow>
        extract_video_id url = Inr (Some ident)"
  proof (intro impI)
    assume shape: "url = ''https://youtu.be/'' @ ident @ ''?'' @ query"
      and slash: "CHR ''/'' \<notin> set ident" and quest: "CHR ''?'' \<notin> set ident"
      and qslash: "CHR ''/'' \<notin> set query"
    have "url = ''https://youtu.be'' @ CHR ''/'' # (ident @ CHR ''?'' # query)"
      using shape by simp
    then have "last_segment CHR ''/'' url = ident @ CHR ''?'' # query"
      using slash qslash last_segment_append [of "CHR ''/''" "ident @ CHR ''?'' # query" "''https://youtu.be''"]
      by simp
    then have "up_to_char CHR ''?'' (last_segment CHR ''/'' url) = ident"
      using quest by (simp add: up_to_char_append)
    with general show "extract_video_id url = Inr (Some ident)" by simp
  qed
qed

theorem extract_video_id_short_link_witness:
  "\<not> str_in ''v='' ''https://youtu.be/ID?si=xyz'' \<and> str_in ''youtu.be'' ''https://youtu.be/ID?si=xyz'' \<and>
   ''https://youtu.be/ID?si=xyz'' = ''https://youtu.be/'' @ ''ID'' @ ''?'' @ ''si=xyz'' \<and>
   CHR ''/'' \<notin> set ''ID'' \<and> CHR ''?'' \<notin> set ''ID'' \<and> CHR ''/'' \<notin> set ''si=xyz'' \<and>
   extract_video_id ''https://youtu.be/ID?si=xyz'' = Inr (Some ''ID'')"
  using extract_video_id_short_link [of "''https://youtu.be/ID?si=xyz''" "''ID''" "''si=xyz''"]
  by (simp add: up_to_char_def last_segment_def)

section \<open>Facts about the transcript fetcher and the prompt composer\<close>

lemma foldl_join: "foldl (\<lambda>acc y. acc @ sep @ y) x xs = x @ concat (map (\<lambda>y. sep @ y) xs)"
  by (induction xs arbitrary: x) simp_all

lemma spaced_Cons: "spaced (x # xs) = x @ concat (map (\<lambda>y. '' '' @ y) xs)"
  by (induction xs arbitrary: x) simp_all

lemma join_strs_spaced: "join_strs '' '' xs = spaced xs"
  by (cases xs) (simp_all only: join_strs.simps spaced.simps foldl_join spaced_Cons)

lemma comprehension_text:
  "list_all has_text frags \<Longrightarrow>
   comprehension (\<lambda>item. dict_get item ''text'') frags = Inr (map (\<lambda>f. PyStr (text_of f)) frags)"
  by (induction frags)
     (auto simp: has_text_def text_of_def dict_get_def bind_raised_def
           split: option.splits pyval.splits)

lemma comprehension_as_str: "comprehension as_str (map (\<lambda>f. PyStr (g f)) xs) = Inr (map g xs)"
  by (induction xs) (simp_all add: bind_raised_def)

lemma format_summary_template:
  "bind_raised (from_template summary_template) (\<lambda>ps. format_prompt ps [''text'' \<mapsto> text]) =
   Inr (summary_prompt text)"
  by (simp add: from_template_def summary_template_def summary_prompt_def newline_def
      bind_raised_def dict_get_def)

lemma format_question_template:
  "bind_raised (from_template question_template)
     (\<lambda>ps. format_prompt ps [''text'' \<mapsto> text, ''question'' \<mapsto> question]) =
   Inr (question_prompt text question)"
  by (simp add: from_template_def question_template_def question_prompt_def newline_def
      bind_raised_def dict_get_def)

lemma ChatGroq_fixed: "k \<noteq> [] \<Longrightarrow> ChatGroq 0 k ''llama3-8b-8192'' = Inr (fixed_config k)"
  by (simp add: ChatGroq_def fixed_config_def default_max_retries_def)

lemma send_request_not_retried:
  "\<not> retried (llm tr cfg p) \<Longrightarrow>
   send_request llm cfg p r tr = (llm tr cfg p, tr @ [LLMRequest cfg p])"
  by (cases r) (auto split: sum.splits raised.splits)

lemma send_request_retried:
  "retried (llm tr cfg p) \<Longrightarrow>
   send_request llm cfg p (Suc r) tr = send_request llm cfg p r (tr @ [LLMRequest cfg p])"
  by (auto split: sum.splits raised.splits)


lemma send_request_answer:
  "fst (send_request llm cfg p r tr) = Inr a \<Longrightarrow>
   \<exists>n\<le>r. llm (tr @ replicate n (LLMRequest cfg p)) cfg p = Inr a"
proof (induction r arbitrary: tr)
  case 0
  then show ?case by simp
next
  case (Suc r)
  show ?case
  proof (cases "retried (llm tr cfg p)")
    case True
    from Suc.prems have "fst (send_request llm cfg p r (tr @ [LLMRequest cfg p])) = Inr a"
      unfolding send_request_retried [of llm tr cfg p r, OF True] .
    from Suc.IH [OF this] obtain n where n: "n \<le> r"
      "llm ((tr @ [LLMRequest cfg p]) @ replicate n (LLMRequest cfg p)) cfg p = Inr a"
      by (elim exE conjE)
    then have "Suc n \<le> Suc r \<and> llm (tr @ replicate (Suc n) (LLMRequest cfg p)) cfg p = Inr a"
      by simp
    then show ?thesis by (rule exI)
  next
    case False
    from Suc.prems have "llm tr cfg p = Inr a"
      unfolding send_request_not_retried [of llm tr cfg p "Suc r", OF False] by simp
    then have "0 \<le> Suc r \<and> llm (tr @ replicate 0 (LLMRequest cfg p)) cfg p = Inr a"
      by simp
    then show ?thesis by (rule exI)
  qed
qed

lemma generate_summary_run:
  "k \<noteq> [] \<Longrightarrow>
   generate_summary llm text k tr =
     send_request llm (fixed_config k) (summary_prompt text) 2 tr"
  by (simp add: generate_summary_def ChatGroq_fixed chain_invoke_def format_summary_template
      Let_def) (simp add: fixed_config_def)

lemma ask_question_run:
  "k \<noteq> [] \<Longrightarrow>
   ask_question llm text question k tr =
     send_request llm (fixed_config k) (question_prompt text question) 2 tr"
  by (simp add: ask_question_def ChatGroq_fixed chain_invoke_def format_question_template
      Let_def) (simp add: fixed_config_def)

lemma no_key_no_request:
  "generate_summary llm text [] tr = (Inl (Exc GroqError), tr)"
  "ask_question llm text question [] tr = (Inl (Exc GroqError), tr)"
  by (simp_all add: generate_summary_def ask_question_def ChatGroq_def)

lemma first_request:
  assumes "k \<noteq> []"
  shows "\<not> retried (llm tr (fixed_config k) (summary_prompt text)) \<Longrightarrow>
         generate_summary llm text k tr =
           (llm tr (fixed_config k) (summary_prompt text),
            tr @ [LLMRequest (fixed_config k) (summary_prompt text)])"
    and "\<not> retried (llm tr (fixed_config k) (question_prompt text question)) \<Longrightarrow>
         ask_question llm text question k tr =
           (llm tr (fixed_config k) (question_prompt text question),
            tr @ [LLMRequest (fixed_config k) (question_prompt text question)])"
  using assms by (simp_all add: generate_summary_run ask_question_run send_request_not_retried)



section \<open>Transcript fetcher: joining the fragments\<close>

text \<open>
  C2. When the transcript provider returns a sequence of caption fragments, each with a
  \<open>text\<close> field that is a string, \<open>get_transcript\<close> returns the texts in the order
  received, one space between neighbours, as one string (and has called the provider
  once). For the fragments \<open>Hello\<close>, \<open>world\<close> this is \<open>Hello world\<close>.
\<close>

theorem get_transcript_joins_fragments:
  "api tr video_id = Inr frags \<Longrightarrow> list_all has_text frags \<Longrightarrow>
   get_transcript api video_id tr =
     (Inr (Some (spaced (map text_of frags))), tr @ [GetTranscriptCall video_id])"
  by (simp add: get_transcript_def except_Exception_def bind_raised_def str_join_def
      comprehension_text comprehension_as_str join_strs_spaced)

theorem get_transcript_joins_fragments_witness:
  "canned_api [text_fragment ''Hello'', text_fragment ''world''] [] ''abc123'' =
     Inr [text_fragment ''Hello'', text_fragment ''world''] \<and>
   list_all has_text [text_fragment ''Hello'', text_fragment ''world''] \<and>
   get_transcript (canned_api [text_fragment ''Hello'', text_fragment ''world'']) ''abc123'' [] =
     (Inr (Some ''Hello world''), [GetTranscriptCall ''abc123''])"
  using get_transcript_joins_fragments
    [of "canned_api [text_fragment ''Hello'', text_fragment ''world'']" "[]" "''abc123''"
        "[text_fragment ''Hello'', text_fragment ''world'']"]
  by (simp add: canned_api_def text_fragment_def has_text_def text_of_def)

section \<open>Transcript fetcher: failures\<close>

text \<open>
  C3. Whatever exception (of Python's class \<open>Exception\<close>) the transcript provider
  raises, \<open>get_transcript\<close> returns \<open>None\<close> and raises nothing; two providers that fail
  for different reasons give the same result, so the caller cannot tell the cause.
\<close>

theorem get_transcript_collapses_failures:
  "api tr video_id = Inl (Exc e) \<Longrightarrow> api' tr video_id = Inl (Exc e') \<Longrightarrow>
   get_transcript api video_id tr = (Inr None, tr @ [GetTranscriptCall video_id]) \<and>
   get_transcript api' video_id tr = get_transcript api video_id tr"
  by (simp add: get_transcript_def except_Exception_def bind_raised_def)

theorem get_transcript_collapses_failures_witness:
  "failing_api (Exc (ProviderError ''TranscriptsDisabled'')) [] ''abc123'' =
     Inl (Exc (ProviderError ''TranscriptsDisabled'')) \<and>
   failing_api (Exc (ProviderError ''ConnectionError'')) [] ''abc123'' =
     Inl (Exc (ProviderError ''ConnectionError'')) \<and>
   get_transcript (failing_api (Exc (ProviderError ''TranscriptsDisabled''))) ''abc123'' [] =
     (Inr None, [GetTranscriptCall ''abc123'']) \<and>
   get_transcript (failing_api (Exc (ProviderError ''ConnectionError''))) ''abc123'' [] =
     get_transcript (failing_api (Exc (ProviderError ''TranscriptsDisabled''))) ''abc123'' []"
  using get_transcript_collapses_failures
    [of "failing_api (Exc (ProviderError ''TranscriptsDisabled''))" "[]" "''abc123''"
        "ProviderError ''TranscriptsDisabled''"
        "failing_api (Exc (ProviderError ''ConnectionError''))" "ProviderError ''ConnectionError''"]
  by (simp add: failing_api_def)

section \<open>Prompt composer: model configuration\<close>




section \<open>Prompt composer: failures of the completion service\<close>




section \<open>Facts about the interactive shell\<close>

lemma str_in_append: "str_in sub xs \<Longrightarrow> str_in sub (xs @ ys)"
  unfolding str_in_sublist sublist_def by (metis append.assoc)


lemma prelude_no_service_call: "list_all (\<lambda>e. \<not> is_service_call e) prelude"
  by (simp add: prelude_def)

lemma app_invalid:
  "video_url_input inp \<noteq> [] \<Longrightarrow> api_key_input inp \<noteq> [] \<Longrightarrow>
   extract_video_id (video_url_input inp) = Inr r \<Longrightarrow> \<not> truthy r \<Longrightarrow>
   app st_video api llm inp = (Inr (), prelude @ [ErrorBox invalid_url_message])"
  by (simp add: app_def Let_def)

lemma app_fetch:
  "video_url_input inp \<noteq> [] \<Longrightarrow> api_key_input inp \<noteq> [] \<Longrightarrow>
   extract_video_id (video_url_input inp) = Inr (Some vid) \<Longrightarrow> vid \<noteq> [] \<Longrightarrow>
   st_video (video_url_input inp) = Inr () \<Longrightarrow>
   app st_video api llm inp =
     (case get_transcript api vid
             (prelude @ [Video (video_url_input inp), Spinner ''Fetching transcript...'']) of
        (Inl e, tr) \<Rightarrow> (Inl e, tr)
      | (Inr transcript_text, tr) \<Rightarrow>
          if truthy transcript_text then ready_view llm (the transcript_text) inp tr
          else (Inr (), tr @ [ErrorBox no_transcript_message]))"
  by (simp add: app_def Let_def)

lemma chat_tab_answer:
  "question_input inp \<noteq> [] \<Longrightarrow> api_key_input inp \<noteq> [] \<Longrightarrow>
   llm (tr @ [Info ''Ask any question about the video content!'', TextInput ''Ask a question:'',
              Spinner ''Thinking...''])
       (fixed_config (api_key_input inp)) (question_prompt text (question_input inp)) = Inr answer \<Longrightarrow>
   chat_tab llm text inp tr =
     (Inr (), tr @ [Info ''Ask any question about the video content!'', TextInput ''Ask a question:'',
                    Spinner ''Thinking...'',
                    LLMRequest (fixed_config (api_key_input inp)) (question_prompt text (question_input inp)),
                    Write answer])"
  by (simp add: chat_tab_def Let_def first_request(2))

section \<open>Interactive shell: idle\<close>



section \<open>Interactive shell: invalid URL\<close>

text \<open>
  C6. For every string that contains neither \<open>v=\<close> nor \<open>youtu.be\<close>, \<open>extract_video_id\<close>
  returns \<open>None\<close>; a run that has this string as its URL, with an API key, renders the
  message \<open>Invalid YouTube URL.\<close> after the fixed widgets and ends there, without a call
  of the transcript provider or of the completion service.
\<close>

theorem invalid_url_stops:
  "\<not> str_in ''v='' url \<Longrightarrow> \<not> str_in ''youtu.be'' url \<Longrightarrow>
   extract_video_id url = Inr None \<and>
   (video_url_input inp = url \<longrightarrow> url \<noteq> [] \<longrightarrow> api_key_input inp \<noteq> [] \<longrightarrow>
      app st_video api llm inp = (Inr (), prelude @ [ErrorBox ''Invalid YouTube URL.'']) \<and>
      list_all (\<lambda>e. \<not> is_service_call e) (snd (app st_video api llm inp)))"
proof (intro conjI impI)
  assume "\<not> str_in ''v='' url" "\<not> str_in ''youtu.be'' url"
  then show none: "extract_video_id url = Inr None"
    by (simp add: extract_video_id_def)
  assume "video_url_input inp = url" "url \<noteq> []" "api_key_input inp \<noteq> []"
  with none show run: "app st_video api llm inp = (Inr (), prelude @ [ErrorBox ''Invalid YouTube URL.''])"
    using app_invalid [of inp None st_video api llm] by (simp add: invalid_url_message_def)
  show "list_all (\<lambda>e. \<not> is_service_call e) (snd (app st_video api llm inp))"
    using prelude_no_service_call by (simp add: run)
qed

theorem invalid_url_stops_witness:
  "\<not> str_in ''v='' ''https://example.com/clip'' \<and> \<not> str_in ''youtu.be'' ''https://example.com/clip'' \<and>
   extract_video_id ''https://example.com/clip'' = Inr None \<and>
   app web_video (canned_api [text_fragment ''Hello'']) (canned_llm ''ok'')
     \<lparr>api_key_input = ''key'', video_url_input = ''https://example.com/clip'',
      summary_button = True, question_input = ''Why?''\<rparr> =
     (Inr (), prelude @ [ErrorBox ''Invalid YouTube URL.''])"
  using invalid_url_stops
    [of "''https://example.com/clip''"
        "\<lparr>api_key_input = ''key'', video_url_input = ''https://example.com/clip'',
          summary_button = True, question_input = ''Why?''\<rparr>"
        web_video "canned_api [text_fragment ''Hello'']" "canned_llm ''ok''"]
  by simp


section \<open>Prompt composer: the fallback phrase\<close>

text \<open>
  C9, as the code has it. The prompt that \<open>ask_question\<close> sends tells the model to answer
  from the transcript ONLY and to say the fallback phrase when the answer is not there;
  \<open>ask_question\<close> returns what the completion service returns for that prompt, and the
  question tab writes exactly that text. So the rendered answer contains the fallback
  phrase when the service's answer does.
\<close>

theorem ask_question_prompt_and_answer:
  \<open>str_in ''based ONLY on the following video transcript'' (question_prompt transcript question) \<and>
   str_in (''If the answer is not in the transcript, say "'' @ fallback_phrase @ ''"'')
     (question_prompt transcript question) \<and>
   (k \<noteq> [] \<longrightarrow> \<not> retried (llm tr (fixed_config k) (question_prompt transcript question)) \<longrightarrow>
      ask_question llm transcript question k tr =
        (llm tr (fixed_config k) (question_prompt transcript question),
         tr @ [LLMRequest (fixed_config k) (question_prompt transcript question)])) \<and>
   (fst (ask_question llm transcript question k tr) = Inr answer' \<longrightarrow>
      (\<exists>n\<le>2. llm (tr @ replicate n (LLMRequest (fixed_config k)
                                        (question_prompt transcript question)))
                  (fixed_config k) (question_prompt transcript question) = Inr answer')) \<and>
   (question_input inp = question \<longrightarrow> question \<noteq> [] \<longrightarrow> api_key_input inp = k \<longrightarrow> k \<noteq> [] \<longrightarrow>
    llm (tr @ [Info ''Ask any question about the video content!'', TextInput ''Ask a question:'',
               Spinner ''Thinking...''])
        (fixed_config k) (question_prompt transcript question) = Inr answer \<longrightarrow>
      chat_tab llm transcript inp tr =
        (Inr (), tr @ [Info ''Ask any question about the video content!'',
                       TextInput ''Ask a question:'', Spinner ''Thinking...'',
                       LLMRequest (fixed_config k) (question_prompt transcript question),
                       Write answer]))\<close>
proof (intro conjI impI)
  have shape: \<open>question_prompt transcript question =
      (newline @
       ''        Answer the user's question based ONLY on the following video transcript.'' @ newline @
       ''        If the answer is not in the transcript, say "I couldn't find that in the video."'') @
      (newline @ ''        '' @ newline @ ''        Transcript: '' @ transcript @ newline @
       ''        '' @ newline @ ''        Question: '' @ question @ newline @ ''        '')\<close>
    by (simp add: question_prompt_def)
  show "str_in ''based ONLY on the following video transcript'' (question_prompt transcript question)"
    unfolding shape by (rule str_in_append) (simp add: newline_def)
  show \<open>str_in (''If the answer is not in the transcript, say "'' @ fallback_phrase @ ''"'')
     (question_prompt transcript question)\<close>
    unfolding shape by (rule str_in_append) (simp add: newline_def fallback_phrase_def)
  show "ask_question llm transcript question k tr =
        (llm tr (fixed_config k) (question_prompt transcript question),
         tr @ [LLMRequest (fixed_config k) (question_prompt transcript question)])"
    if "k \<noteq> []" "\<not> retried (llm tr (fixed_config k) (question_prompt transcript question))"
    using that by (rule first_request(2))
  show "\<exists>n\<le>2. llm (tr @ replicate n (LLMRequest (fixed_config k)
                                        (question_prompt transcript question)))
                  (fixed_config k) (question_prompt transcript question) = Inr answer'"
    if returned: "fst (ask_question llm transcript question k tr) = Inr answer'"
  proof (cases "k = []")
    case True
    with returned show ?thesis by (simp add: no_key_no_request)
  next
    case False
    then have "ask_question llm transcript question k tr =
        send_request llm (fixed_config k) (question_prompt transcript question) 2 tr"
      by (rule ask_question_run)
    with returned have "fst (send_request llm (fixed_config k)
        (question_prompt transcript question) 2 tr) = Inr answer'"
      by (simp del: send_request.simps)
    then show ?thesis by (rule send_request_answer)
  qed
  assume "question_input inp = question" "question \<noteq> []" "api_key_input inp = k" "k \<noteq> []"
    "llm (tr @ [Info ''Ask any question about the video content!'', TextInput ''Ask a question:'',
               Spinner ''Thinking...''])
        (fixed_config k) (question_prompt transcript question) = Inr answer"
  then show "chat_tab llm transcript inp tr =
        (Inr (), tr @ [Info ''Ask any question about the video content!'',
                       TextInput ''Ask a question:'', Spinner ''Thinking...'',
                       LLMRequest (fixed_config k) (question_prompt transcript question),
                       Write answer])"
    using chat_tab_answer [of inp llm tr transcript answer] by simp
qed

theorem ask_question_prompt_and_answer_witness:
  "question_input \<lparr>api_key_input = ''key'', video_url_input = ''https://youtu.be/abc123'',
                    summary_button = False, question_input = ''Who is the author?''\<rparr> =
     ''Who is the author?'' \<and>
   ''key'' \<noteq> [] \<and>
   canned_llm fallback_phrase
     [Info ''Ask any question about the video content!'', TextInput ''Ask a question:'',
      Spinner ''Thinking...'']
     (fixed_config ''key'') (question_prompt ''Hello world'' ''Who is the author?'') =
     Inr fallback_phrase \<and>
   \<not> retried (canned_llm fallback_phrase [] (fixed_config ''key'')
                (question_prompt ''Hello world'' ''Who is the author?'')) \<and>
   ask_question (canned_llm fallback_phrase) ''Hello world'' ''Who is the author?'' ''key'' [] =
     (Inr fallback_phrase,
      [LLMRequest (fixed_config ''key'') (question_prompt ''Hello world'' ''Who is the author?'')]) \<and>
   chat_tab (canned_llm fallback_phrase) ''Hello world''
     \<lparr>api_key_input = ''key'', video_url_input = ''https://youtu.be/abc123'',
      summary_button = False, question_input = ''Who is the author?''\<rparr> [] =
     (Inr (), [Info ''Ask any question about the video content!'',
               TextInput ''Ask a question:'', Spinner ''Thinking...'',
               LLMRequest (fixed_config ''key'') (question_prompt ''Hello world'' ''Who is the author?''),
               Write fallback_phrase])"
  using ask_question_prompt_and_answer
    [where inp = "\<lparr>api_key_input = ''key'', video_url_input = ''https://youtu.be/abc123'',
                   summary_button = False, question_input = ''Who is the author?''\<rparr>"
       and question = "''Who is the author?''" and k = "''key''"
       and llm = "canned_llm fallback_phrase" and tr = "[]" and transcript = "''Hello world''"
       and answer = fallback_phrase and answer' = fallback_phrase]
  by (simp add: canned_llm_def)

text \<open>
  C9 as the specification states it fails: the answer that is rendered is the completion
  service's, whatever it is. With a service that answers \<open>Paris\<close>, the transcript
  \<open>Hello world\<close> and a question that the transcript does not answer, the run writes
  \<open>Paris\<close>, which does not contain the fallback phrase.
\<close>

theorem fallback_phrase_counterexample:
  "rendered_answers
     (snd (app web_video (canned_api [text_fragment ''Hello world'']) (canned_llm ''Paris'')
             \<lparr>api_key_input = ''key'', video_url_input = ''https://youtu.be/abc123'',
              summary_button = False, question_input = ''What is the capital of France?''\<rparr>)) =
     [''Paris''] \<and>
   \<not> str_in fallback_phrase ''Paris''"
  by (simp add: app_def Let_def extract_video_id_def str_split_def py_index_def bind_raised_def
      web_video_def get_transcript_def except_Exception_def canned_api_def text_fragment_def
      dict_get_def str_join_def ready_view_def summary_tab_def chat_tab_def first_request(2)
      canned_llm_def prelude_def fallback_phrase_def)

section \<open>Interactive shell: an empty transcript\<close>

text \<open>
  C10. When the transcript provider succeeds with no caption fragments,
  \<open>get_transcript\<close> returns the empty string, and the run renders the message for a
  missing transcript and no tabs; it is the same run as with a provider that raises.
  (The provider is called in the runs where \<open>st.video\<close> has accepted the URL.)
\<close>

theorem empty_transcript_is_unavailable:
  "video_url_input inp \<noteq> [] \<Longrightarrow> api_key_input inp \<noteq> [] \<Longrightarrow>
   extract_video_id (video_url_input inp) = Inr (Some vid) \<Longrightarrow> vid \<noteq> [] \<Longrightarrow>
   st_video (video_url_input inp) = Inr () \<Longrightarrow>
   api (prelude @ [Video (video_url_input inp), Spinner ''Fetching transcript...'']) vid = Inr [] \<Longrightarrow>
   get_transcript api vid (prelude @ [Video (video_url_input inp), Spinner ''Fetching transcript...'']) =
     (Inr (Some []),
      prelude @ [Video (video_url_input inp), Spinner ''Fetching transcript...'',
                 GetTranscriptCall vid]) \<and>
   app st_video api llm inp =
     (Inr (),
      prelude @ [Video (video_url_input inp), Spinner ''Fetching transcript...'',
                 GetTranscriptCall vid, ErrorBox no_transcript_message]) \<and>
   (api' (prelude @ [Video (video_url_input inp), Spinner ''Fetching transcript...'']) vid =
      Inl (Exc e) \<longrightarrow> app st_video api' llm inp = app st_video api llm inp)"
proof (intro conjI impI)
  assume url: "video_url_input inp \<noteq> []" and key: "api_key_input inp \<noteq> []"
    and ident: "extract_video_id (video_url_input inp) = Inr (Some vid)" "vid \<noteq> []"
    and video: "st_video (video_url_input inp) = Inr ()"
    and empty: "api (prelude @ [Video (video_url_input inp), Spinner ''Fetching transcript...'']) vid = Inr []"
  show fetched: "get_transcript api vid
       (prelude @ [Video (video_url_input inp), Spinner ''Fetching transcript...'']) =
     (Inr (Some []),
      prelude @ [Video (video_url_input inp), Spinner ''Fetching transcript...'',
                 GetTranscriptCall vid])"
    using empty
    by (simp add: get_transcript_def except_Exception_def bind_raised_def str_join_def)
  show run: "app st_video api llm inp =
     (Inr (),
      prelude @ [Video (video_url_input inp), Spinner ''Fetching transcript...'',
                 GetTranscriptCall vid, ErrorBox no_transcript_message])"
    using app_fetch [where inp = inp and vid = vid and st_video = st_video and api = api
        and llm = llm] url key ident video
    by (simp add: fetched)
  assume "api' (prelude @ [Video (video_url_input inp), Spinner ''Fetching transcript...'']) vid =
      Inl (Exc e)"
  then have "get_transcript api' vid
       (prelude @ [Video (video_url_input inp), Spinner ''Fetching transcript...'']) =
     (Inr None,
      prelude @ [Video (video_url_input inp), Spinner ''Fetching transcript...'',
                 GetTranscriptCall vid])"
    by (simp add: get_transcript_def except_Exception_def bind_raised_def)
  then show "app st_video api' llm inp = app st_video api llm inp"
    using app_fetch [where inp = inp and vid = vid and st_video = st_video and api = api'
        and llm = llm] url key ident video
    by (simp add: run)
qed

theorem empty_transcript_is_unavailable_witness:
  "extract_video_id ''https://youtu.be/abc123'' = Inr (Some ''abc123'') \<and>
   web_video ''https://youtu.be/abc123'' = Inr () \<and>
   canned_api [] (prelude @ [Video ''https://youtu.be/abc123'', Spinner ''Fetching transcript...''])
     ''abc123'' = Inr [] \<and>
   failing_api (Exc (ProviderError ''TranscriptsDisabled''))
     (prelude @ [Video ''https://youtu.be/abc123'', Spinner ''Fetching transcript...''])
     ''abc123'' = Inl (Exc (ProviderError ''TranscriptsDisabled'')) \<and>
   app web_video (canned_api []) (canned_llm ''ok'')
     \<lparr>api_key_input = ''key'', video_url_input = ''https://youtu.be/abc123'',
      summary_button = True, question_input = ''Why?''\<rparr> =
     (Inr (),
      prelude @ [Video ''https://youtu.be/abc123'', Spinner ''Fetching transcript...'',
                 GetTranscriptCall ''abc123'', ErrorBox no_transcript_message]) \<and>
   app web_video (failing_api (Exc (ProviderError ''TranscriptsDisabled''))) (canned_llm ''ok'')
     \<lparr>api_key_input = ''key'', video_url_input = ''https://youtu.be/abc123'',
      summary_button = True, question_input = ''Why?''\<rparr> =
   app web_video (canned_api []) (canned_llm ''ok'')
     \<lparr>api_key_input = ''key'', video_url_input = ''https://youtu.be/abc123'',
      summary_button = True, question_input = ''Why?''\<rparr>"
proof -
  have ident: "extract_video_id ''https://youtu.be/abc123'' = Inr (Some ''abc123'')"
    by (simp add: extract_video_id_def str_split_def py_index_def bind_raised_def)
  show ?thesis
    using ident empty_transcript_is_unavailable
      [where inp = "\<lparr>api_key_input = ''key'', video_url_input = ''https://youtu.be/abc123'',
                     summary_button = True, question_input = ''Why?''\<rparr>"
         and vid = "''abc123''" and st_video = web_video and api = "canned_api []"
         and llm = "canned_llm ''ok''"
         and api' = "failing_api (Exc (ProviderError ''TranscriptsDisabled''))"
         and e = "ProviderError ''TranscriptsDisabled''"]
    by (simp add: canned_api_def failing_api_def web_video_def)
qed

end
